theory Spec2Isabelle
  imports Main "HOL-Library.Word"
begin

section \<open>JavaScript strings and thrown values\<close>

text \<open>
  A JavaScript string is a sequence of 16-bit code units. String literals of the source
  that are plain ASCII are written with \<open>lit\<close>; the emoji that prefix the client's
  messages are single code units of the Basic Multilingual Plane.
\<close>

type_synonym jsstring = "16 word list"

definition lit :: "string \<Rightarrow> jsstring" where
  "lit s = map (\<lambda>c. of_nat (of_char c)) s"

definition cross_mark :: jsstring where
  "cross_mark = [0x274C]"

definition check_mark :: jsstring where
  "check_mark = [0x2705]"

text \<open>
  What a \<open>throw\<close> carries: an instance of \<open>Error\<close> (with its \<open>name\<close> and
  \<open>message\<close>) or any other value. \<open>new Error(m)\<close> has the name \<open>Error\<close>;
  the \<open>URIError\<close> of \<open>encodeURIComponent\<close> has the name \<open>URIError\<close>.
\<close>

datatype thrown = ErrorInstance jsstring jsstring | NonError

definition new_Error :: "jsstring \<Rightarrow> thrown" where
  "new_Error m = ErrorInstance (lit ''Error'') m"

definition URIError :: thrown where
  "URIError = ErrorInstance (lit ''URIError'') (lit ''URI malformed'')"

text \<open>
  \<open>!s\<close> for an optional string: true for \<open>undefined\<close> and for the empty string.
  \<open>s || ""\<close> is the string itself, or the empty string when it is absent.
\<close>

definition falsy :: "jsstring option \<Rightarrow> bool" where
  "falsy s = (case s of None \<Rightarrow> True | Some t \<Rightarrow> t = [])"

definition or_empty :: "jsstring option \<Rightarrow> jsstring" where
  "or_empty s = (case s of None \<Rightarrow> [] | Some t \<Rightarrow> t)"

section \<open>Effects: a log of what was done, and how the call ended\<close>

text \<open>
  A call of the client ends by returning a value (\<open>Inr\<close>) or by throwing (\<open>Inl\<close>); for an
  \<open>async\<close> function these are the fulfilment and the rejection of its promise. Beside
  the outcome stands the list of the external actions performed before it, in order.
\<close>

type_synonym ('e, 'a) eff = "(thrown + 'a) \<times> 'e list"

definition ret :: "'a \<Rightarrow> ('e, 'a) eff" where
  "ret a = (Inr a, [])"

definition raise :: "thrown \<Rightarrow> ('e, 'a) eff" where
  "raise x = (Inl x, [])"

definition emit :: "'e \<Rightarrow> ('e, unit) eff" where
  "emit e = (Inr (), [e])"

definition lift :: "thrown + 'a \<Rightarrow> ('e, 'a) eff" where
  "lift r = (r, [])"

definition bind :: "('e, 'a) eff \<Rightarrow> ('a \<Rightarrow> ('e, 'b) eff) \<Rightarrow> ('e, 'b) eff" where
  "bind m f =
     (case fst m of
        Inl x \<Rightarrow> (Inl x, snd m)
      | Inr a \<Rightarrow> (fst (f a), snd m @ snd (f a)))"

text \<open>
  An external call whose outcome is not decided by this code (a caller's callback, a
  method of the socket library): it is logged, and it returns normally (\<open>None\<close>) or
  throws.
\<close>

definition call :: "'e \<Rightarrow> thrown option \<Rightarrow> ('e, unit) eff" where
  "call e r = (case r of None \<Rightarrow> (Inr (), [e]) | Some x \<Rightarrow> (Inl x, [e]))"

section \<open>encodeURIComponent, split and join\<close>

definition uriUnreserved :: "16 word \<Rightarrow> bool" where
  "uriUnreserved c =
     (let n = unat c in
        (65 \<le> n \<and> n \<le> 90) \<or> (97 \<le> n \<and> n \<le> 122) \<or> (48 \<le> n \<and> n \<le> 57) \<or>
        n \<in> {45, 95, 46, 33, 126, 42, 39, 40, 41})"

definition isLeadingSurrogate :: "16 word \<Rightarrow> bool" where
  "isLeadingSurrogate c = (0xD800 \<le> unat c \<and> unat c \<le> 0xDBFF)"

definition isTrailingSurrogate :: "16 word \<Rightarrow> bool" where
  "isTrailingSurrogate c = (0xDC00 \<le> unat c \<and> unat c \<le> 0xDFFF)"

definition pairToCodePoint :: "16 word \<Rightarrow> 16 word \<Rightarrow> nat" where
  "pairToCodePoint lead trail =
     (unat lead - 0xD800) * 0x400 + (unat trail - 0xDC00) + 0x10000"

definition utf8Encode :: "nat \<Rightarrow> nat list" where
  "utf8Encode cp =
     (if cp < 0x80 then [cp]
      else if cp < 0x800 then [0xC0 + cp div 64, 0x80 + cp mod 64]
      else if cp < 0x10000 then
        [0xE0 + cp div 4096, 0x80 + (cp div 64) mod 64, 0x80 + cp mod 64]
      else
        [0xF0 + cp div 262144, 0x80 + (cp div 4096) mod 64,
         0x80 + (cp div 64) mod 64, 0x80 + cp mod 64])"

definition hexDigit :: "nat \<Rightarrow> 16 word" where
  "hexDigit d = (if d < 10 then of_nat (48 + d) else of_nat (55 + d))"

definition percentEncode :: "nat list \<Rightarrow> jsstring" where
  "percentEncode octets =
     concat (map (\<lambda>b. [0x25, hexDigit (b div 16), hexDigit (b mod 16)]) octets)"

definition prepend :: "jsstring \<Rightarrow> thrown + jsstring \<Rightarrow> thrown + jsstring" where
  "prepend p r = (case r of Inl e \<Rightarrow> Inl e | Inr s \<Rightarrow> Inr (p @ s))"

text \<open>
  The \<open>Encode\<close> operation of ECMAScript with the unreserved set of
  \<open>encodeURIComponent\<close>: an unreserved code unit is copied; any other code point is
  written as the percent-escapes of its UTF-8 octets; an unpaired surrogate throws
  \<open>URIError\<close>.
\<close>

fun encodeURIComponent :: "jsstring \<Rightarrow> thrown + jsstring" where
  "encodeURIComponent [] = Inr []"
| "encodeURIComponent (c # cs) =
     (if uriUnreserved c then prepend [c] (encodeURIComponent cs)
      else if isLeadingSurrogate c then
        (case cs of
           [] \<Rightarrow> Inl URIError
         | d # ds \<Rightarrow>
             if isTrailingSurrogate d
             then prepend (percentEncode (utf8Encode (pairToCodePoint c d)))
                    (encodeURIComponent ds)
             else Inl URIError)
      else if isTrailingSurrogate c then Inl URIError
      else prepend (percentEncode (utf8Encode (unat c))) (encodeURIComponent cs))"

text \<open>\<open>String.prototype.isWellFormed\<close>: no unpaired surrogate.\<close>

fun isWellFormed :: "jsstring \<Rightarrow> bool" where
  "isWellFormed [] = True"
| "isWellFormed (c # cs) =
     (if isLeadingSurrogate c then
        (case cs of [] \<Rightarrow> False | d # ds \<Rightarrow> isTrailingSurrogate d \<and> isWellFormed ds)
      else \<not> isTrailingSurrogate c \<and> isWellFormed cs)"

definition slash :: "16 word" where
  "slash = 0x2F"

text \<open>\<open>s.split(sep)\<close> for a one-unit separator: never an empty array.\<close>

fun split :: "16 word \<Rightarrow> jsstring \<Rightarrow> jsstring list" where
  "split sep [] = [[]]"
| "split sep (c # cs) =
     (if c = sep then [] # split sep cs
      else (case split sep cs of [] \<Rightarrow> [[c]] | s # ss \<Rightarrow> (c # s) # ss))"

text \<open>\<open>a.join(sep)\<close>.\<close>

fun join :: "16 word \<Rightarrow> jsstring list \<Rightarrow> jsstring" where
  "join sep [] = []"
| "join sep [s] = s"
| "join sep (s # t # ss) = s @ sep # join sep (t # ss)"

text \<open>\<open>a.map(f)\<close> for an \<open>f\<close> that may throw: the first throw ends the loop.\<close>

fun map_throw :: "('a \<Rightarrow> thrown + 'b) \<Rightarrow> 'a list \<Rightarrow> thrown + 'b list" where
  "map_throw f [] = Inr []"
| "map_throw f (x # xs) =
     (case f x of
        Inl e \<Rightarrow> Inl e
      | Inr y \<Rightarrow> (case map_throw f xs of Inl e \<Rightarrow> Inl e | Inr ys \<Rightarrow> Inr (y # ys)))"

text \<open>The decimal digits of a number, as a template literal prints it.\<close>

function numToString :: "nat \<Rightarrow> jsstring" where
  "numToString n =
     (if n < 10 then [of_nat (48 + n)]
      else numToString (n div 10) @ [of_nat (48 + n mod 10)])"
  by pat_completeness auto
termination
  by (relation "measure id") auto

declare numToString.simps [simp del]

section \<open>The storage client\<close>

record StorageClientConfiguration =
  projectId :: jsstring
  dabblebaseUrl :: jsstring
  projectToken :: "jsstring option"

text \<open>
  A request handed to \<open>fetch\<close>: method, URL, headers in the order they are written, and
  the form data of the body (the entries appended to a \<open>FormData\<close>), if any. The file
  to upload is an opaque value of type \<open>'f\<close>.
\<close>

record 'f request =
  http_method :: jsstring
  url :: jsstring
  headers :: "(jsstring \<times> jsstring) list"
  body :: "(jsstring \<times> 'f) list option"

text \<open>
  The response of \<open>fetch\<close>: the status line, what \<open>text()\<close> gives (the body's text, or
  a throw when the body cannot be read), and what \<open>json()\<close> gives (a parsed value of type
  \<open>'j\<close>, or a throw on a body that is not JSON). The getter \<open>ok\<close> of the Fetch API holds
  for the statuses 200 to 299.
\<close>

record 'j response =
  status :: nat
  statusText :: jsstring
  text_body :: "thrown + jsstring"
  json_body :: "thrown + 'j"

definition ok :: "'j response \<Rightarrow> bool" where
  "ok r = (200 \<le> status r \<and> status r \<le> 299)"

text \<open>
  The actions of the storage client on the outside world: building the form data,
  the network call, and reading the response's body.
\<close>

datatype 'f io =
    NewFormData
  | FormDataAppend jsstring 'f
  | Fetch "'f request"
  | ReadText
  | ReadJson

record uploaded = uploaded_url :: jsstring

definition getAuthHeaders :: "StorageClientConfiguration \<Rightarrow> (jsstring \<times> jsstring) list" where
  "getAuthHeaders cfg =
     [(lit ''Content-Type'', lit ''application/json'')] @
     (if falsy (projectToken cfg) then []
      else [(lit ''X-Project-Token'', or_empty (projectToken cfg))])"

definition upload_request :: "StorageClientConfiguration \<Rightarrow> 'f \<Rightarrow> jsstring \<Rightarrow> 'f request" where
  "upload_request cfg file encodedPath =
     \<lparr> http_method = lit ''POST'',
       url = dabblebaseUrl cfg @ lit ''/api/project/'' @ projectId cfg @
             lit ''/storage/upload?path='' @ encodedPath,
       headers = [(lit ''X-Project-Token'', or_empty (projectToken cfg))],
       body = Some [(lit ''file'', file)] \<rparr>"

definition list_request :: "StorageClientConfiguration \<Rightarrow> 'f request" where
  "list_request cfg =
     \<lparr> http_method = lit ''GET'',
       url = dabblebaseUrl cfg @ lit ''/api/project/'' @ projectId cfg @
             lit ''/storage/list'',
       headers = getAuthHeaders cfg,
       body = None \<rparr>"

definition delete_request :: "StorageClientConfiguration \<Rightarrow> jsstring \<Rightarrow> 'f request" where
  "delete_request cfg encodedPath =
     \<lparr> http_method = lit ''DELETE'',
       url = dabblebaseUrl cfg @ lit ''/api/project/'' @ projectId cfg @
             lit ''/storage/delete?path='' @ encodedPath,
       headers = getAuthHeaders cfg,
       body = None \<rparr>"

text \<open>The text \<open>(${response.status} ${response.statusText})\<close> of the three messages.\<close>

definition status_line :: "'j response \<Rightarrow> jsstring" where
  "status_line r = lit ''('' @ numToString (status r) @ lit '' '' @ statusText r @ lit '')''"

definition upload_failed :: "'j response \<Rightarrow> jsstring \<Rightarrow> thrown" where
  "upload_failed r errorText =
     new_Error (cross_mark @ lit '' (dabblebase): Direct upload failed '' @ status_line r @
                lit ''. '' @ errorText)"

definition list_failed :: "'j response \<Rightarrow> jsstring \<Rightarrow> thrown" where
  "list_failed r errorText =
     new_Error (cross_mark @ lit '' (dabblebase): Failed to list files '' @ status_line r @
                lit ''. '' @ errorText)"

definition delete_failed :: "'j response \<Rightarrow> thrown" where
  "delete_failed r =
     new_Error (cross_mark @ lit '' (dabblebase): Failed to delete the file '' @
                status_line r @ lit ''.'')"

definition no_file :: thrown where
  "no_file = new_Error (cross_mark @ lit '' (dabblebase): A file must be provided for upload.'')"

definition no_upload_path :: thrown where
  "no_upload_path =
     new_Error (cross_mark @ lit '' (dabblebase): A destination path must be provided for upload.'')"

definition no_view_path :: thrown where
  "no_view_path =
     new_Error (cross_mark @ lit '' (dabblebase): A path must be provided for view URL.'')"

definition no_delete_path :: thrown where
  "no_delete_path =
     new_Error (cross_mark @ lit '' (dabblebase): A destination path must be provided for deletion.'')"

text \<open>\<open>await fetch(req)\<close>, \<open>await response.text()\<close>, \<open>await response.json()\<close>.\<close>

definition do_fetch ::
  "('f request \<Rightarrow> thrown + 'j response) \<Rightarrow> 'f request \<Rightarrow> ('f io, 'j response) eff" where
  "do_fetch fetch req = (fetch req, [Fetch req])"

definition read_text :: "'j response \<Rightarrow> ('f io, jsstring) eff" where
  "read_text r = (text_body r, [ReadText])"

definition read_json :: "'j response \<Rightarrow> ('f io, 'j) eff" where
  "read_json r = (json_body r, [ReadJson])"

text \<open>
  \<open>upload({file, path})\<close>. The file is optional at run time (the code tests \<open>!file\<close>).
  \<open>url_of result\<close> is the text that the template literal prints for \<open>result.url\<close>, a
  throw when \<open>result\<close> has no properties to read.
\<close>

definition upload ::
  "StorageClientConfiguration \<Rightarrow> ('f request \<Rightarrow> thrown + 'j response) \<Rightarrow>
   ('j \<Rightarrow> thrown + jsstring) \<Rightarrow> 'f option \<Rightarrow> jsstring \<Rightarrow> ('f io, uploaded) eff" where
  "upload cfg fetch url_of file path =
     (case file of
        None \<Rightarrow> raise no_file
      | Some f \<Rightarrow>
          if path = [] then raise no_upload_path
          else
            bind (emit NewFormData) (\<lambda>_.
            bind (emit (FormDataAppend (lit ''file'') f)) (\<lambda>_.
            bind (lift (encodeURIComponent path)) (\<lambda>encodedPath.
            bind (do_fetch fetch (upload_request cfg f encodedPath)) (\<lambda>response.
              if \<not> ok response then
                bind (read_text response) (\<lambda>errorText.
                raise (upload_failed response errorText))
              else
                bind (read_json response) (\<lambda>result.
                bind (lift (url_of result)) (\<lambda>u.
                ret \<lparr> uploaded_url = dabblebaseUrl cfg @ u \<rparr>)))))))"

text \<open>\<open>list()\<close> returns the parsed body as it is.\<close>

definition list_files ::
  "StorageClientConfiguration \<Rightarrow> ('f request \<Rightarrow> thrown + 'j response) \<Rightarrow> ('f io, 'j) eff" where
  "list_files cfg fetch =
     bind (do_fetch fetch (list_request cfg)) (\<lambda>response.
       if \<not> ok response then
         bind (read_text response) (\<lambda>errorText.
         raise (list_failed response errorText))
       else read_json response)"

text \<open>\<open>getUrl(path)\<close>.\<close>

definition view_url :: "StorageClientConfiguration \<Rightarrow> jsstring \<Rightarrow> jsstring \<Rightarrow> jsstring" where
  "view_url cfg encodedPath encodedToken =
     dabblebaseUrl cfg @ lit ''/api/project/'' @ projectId cfg @ lit ''/storage/view/'' @
     encodedPath @ lit ''?X-Project-Token='' @ encodedToken"

definition getUrl :: "StorageClientConfiguration \<Rightarrow> jsstring \<Rightarrow> ('f io, jsstring) eff" where
  "getUrl cfg path =
     (if path = [] then raise no_view_path
      else
        bind (lift (map_throw encodeURIComponent (split slash path))) (\<lambda>segments.
        bind (lift (encodeURIComponent (or_empty (projectToken cfg)))) (\<lambda>encodedToken.
        ret (view_url cfg (join slash segments) encodedToken))))"

text \<open>\<open>delete({path})\<close>.\<close>

definition delete ::
  "StorageClientConfiguration \<Rightarrow> ('f request \<Rightarrow> thrown + 'j response) \<Rightarrow> jsstring \<Rightarrow>
   ('f io, unit) eff" where
  "delete cfg fetch path =
     (if path = [] then raise no_delete_path
      else
        bind (lift (encodeURIComponent path)) (\<lambda>encodedPath.
        bind (do_fetch fetch (delete_request cfg encodedPath)) (\<lambda>response.
          if \<not> ok response then raise (delete_failed response)
          else ret ())))"

section \<open>The auth client: verify\<close>

text \<open>
  The result of \<open>verify\<close>; \<open>null\<close> is \<open>None\<close>. The subject is the payload that
  \<open>jwt.verify\<close> returned (of type \<open>'p\<close>: the library's declared result, a string or
  an object, never \<open>null\<close>), cast to \<open>AuthSubject\<close>.
\<close>

record 'p AuthVerificationResult =
  subject :: "'p option"
  error :: "thrown option"

datatype jwt_call = JwtVerify jsstring jsstring "jsstring list"

definition not_authenticated :: thrown where
  "not_authenticated = new_Error (lit ''The user is not authenticated.'')"

definition no_verify_key :: thrown where
  "no_verify_key =
     new_Error (cross_mark @ lit '' (dabblebase): Cannot verify the auth token because no auth verification key was provided to dabblebase client.'')"

definition publicKey :: "jsstring \<Rightarrow> jsstring" where
  "publicKey authVerifyKey =
     lit ''-----BEGIN PUBLIC KEY-----'' @ [0x0A] @ authVerifyKey @ [0x0A] @
     lit ''-----END PUBLIC KEY-----''"

text \<open>The \<open>catch\<close> block of \<open>verify\<close>: what is caught becomes the \<open>error\<close> field.\<close>

definition verify_catch :: "thrown \<Rightarrow> 'p AuthVerificationResult" where
  "verify_catch e =
     (case e of
        ErrorInstance name message \<Rightarrow>
          \<lparr> subject = None,
            error = Some (new_Error (cross_mark @
              lit '' (dabblebase): An error occurred while verifying the auth token. '' @
              name @ lit '': '' @ message)) \<rparr>
      | NonError \<Rightarrow>
          \<lparr> subject = None,
            error = Some (new_Error (cross_mark @
              lit '' (dabblebase): An unexpected error occurred while verifying the auth token.'')) \<rparr>)"

text \<open>
  \<open>verify(authToken)\<close> of a client built with \<open>authVerifyKey\<close>. The library function
  \<open>jwt.verify(token, key, {algorithms})\<close> is the parameter \<open>jwt_verify\<close>: it returns the
  payload or throws. Each call of it is logged.
\<close>

definition verify ::
  "(jsstring \<Rightarrow> jsstring \<Rightarrow> thrown + 'p) \<Rightarrow> jsstring option \<Rightarrow> jsstring option \<Rightarrow>
   (jwt_call, 'p AuthVerificationResult) eff" where
  "verify jwt_verify authVerifyKey authToken =
     (if falsy authToken then
        ret \<lparr> subject = None, error = Some not_authenticated \<rparr>
      else if falsy authVerifyKey then raise no_verify_key
      else
        (case jwt_verify (or_empty authToken) (publicKey (or_empty authVerifyKey)) of
           Inr payload \<Rightarrow>
             (Inr \<lparr> subject = Some payload, error = None \<rparr>,
              [JwtVerify (or_empty authToken) (publicKey (or_empty authVerifyKey)) [lit ''RS256'']])
         | Inl e \<Rightarrow>
             (Inr (verify_catch e),
              [JwtVerify (or_empty authToken) (publicKey (or_empty authVerifyKey)) [lit ''RS256'']])))"

section \<open>The realtime client\<close>

text \<open>
  A presence state is an object from user ids to \<open>{metas: [...]}\<close>; it is modelled by its
  entries in the order \<open>Object.entries\<close> lists them, each with its \<open>metas\<close> array.
  Copying it with a spread \<open>{...state}\<close> keeps the entries.
\<close>

type_synonym 'm PresenceState = "(jsstring \<times> 'm list) list"

record 'm presence_diff =
  joins :: "'m PresenceState"
  leaves :: "'m PresenceState"

record PresenceUser =
  online_at :: jsstring

text \<open>
  What the realtime client does to the outside world: console output, calls of the
  caller's callbacks, and calls of the socket library's channel and socket. \<open>'r\<close> is
  the reply of a failed join, \<open>'p\<close> a message payload, \<open>'m\<close> a presence metadata entry.
  The object handed to \<open>channel.push\<close> is the list of its properties.
\<close>

datatype ('r, 'p, 'm) rt =
    ConsoleLog jsstring
  | ConsoleError jsstring 'r
  | OnConnect
  | OnConnectError 'r
  | OnDbChange 'p
  | OnReceiveMessage 'p
  | OnReceivePresenceState "'m PresenceState"
  | OnPresenceJoin jsstring 'm
  | OnPresenceLeave jsstring 'm
  | ChannelPush jsstring "(jsstring \<times> 'p) list"
  | ChannelLeave
  | SocketDisconnect

text \<open>
  The options of the three listeners. Every callback is optional; a callback that is
  given is a function of the caller's, which returns normally (\<open>None\<close>) or throws.
\<close>

record 'r connect_options =
  onConnect :: "(unit \<Rightarrow> thrown option) option"
  onConnectError :: "('r \<Rightarrow> thrown option) option"

record ('r, 'p) db_options = "'r connect_options" +
  onDbChange :: "('p \<Rightarrow> thrown option) option"

record ('r, 'p) broadcast_options = "'r connect_options" +
  channelName :: jsstring
  onReceiveMessage :: "('p \<Rightarrow> thrown option) option"

record ('r, 'm) presence_options = "'r connect_options" +
  onReceivePresenceState :: "('m PresenceState \<Rightarrow> thrown option) option"
  onPresenceJoin :: "(jsstring \<times> 'm \<Rightarrow> thrown option) option"
  onPresenceLeave :: "(jsstring \<times> 'm \<Rightarrow> thrown option) option"

text \<open>The optional call \<open>cb?.(arg)\<close>: nothing happens when \<open>cb\<close> is absent.\<close>

definition call_opt ::
  "('a \<Rightarrow> thrown option) option \<Rightarrow> ('r, 'p, 'm) rt \<Rightarrow> 'a \<Rightarrow> (('r, 'p, 'm) rt, unit) eff" where
  "call_opt cb e arg = (case cb of None \<Rightarrow> ret () | Some f \<Rightarrow> call e (f arg))"

text \<open>\<open>xs.forEach(f)\<close>: a throw of \<open>f\<close> ends the loop.\<close>

fun forEach :: "('a \<Rightarrow> ('e, unit) eff) \<Rightarrow> 'a list \<Rightarrow> ('e, unit) eff" where
  "forEach f [] = ret ()"
| "forEach f (x # xs) = bind (f x) (\<lambda>_. forEach f xs)"

subsection \<open>The continuations of the channel join\<close>

definition db_join_failed :: thrown where
  "db_join_failed =
     new_Error (cross_mark @ lit '' (dabblebase): Unable to connect to the db changes websocket channel.'')"

definition broadcast_join_failed :: "jsstring \<Rightarrow> thrown" where
  "broadcast_join_failed name =
     new_Error (cross_mark @ lit '' (dabblebase): Unable to connect to the broadcast websocket channel '' @
                name @ lit ''.'')"

definition presence_join_failed :: thrown where
  "presence_join_failed =
     new_Error (cross_mark @ lit '' (dabblebase): Unable to connect to the presence websocket channel.'')"

text \<open>\<open>listenToDbChanges\<close>: the continuations registered with \<open>receive("ok")\<close> and \<open>receive("error")\<close>.\<close>

definition listenToDbChanges_ok ::
  "('r, 'p, 'z) db_options_scheme \<Rightarrow> (('r, 'p, 'm) rt, unit) eff" where
  "listenToDbChanges_ok opts =
     bind (emit (ConsoleLog (check_mark @ lit '' (dabblebase): Joined database channel successfully''))) (\<lambda>_.
     call_opt (onConnect opts) OnConnect ())"

definition listenToDbChanges_error ::
  "('r, 'p, 'z) db_options_scheme \<Rightarrow> 'r \<Rightarrow> (('r, 'p, 'm) rt, unit) eff" where
  "listenToDbChanges_error opts err =
     bind (emit (ConsoleError (cross_mark @ lit '' (dabblebase): Failed to join database channel:'') err)) (\<lambda>_.
     bind (call_opt (onConnectError opts) (OnConnectError err) err) (\<lambda>_.
     raise db_join_failed))"

text \<open>\<open>listenForBroadcasts\<close>.\<close>

definition listenForBroadcasts_ok ::
  "('r, 'p, 'z) broadcast_options_scheme \<Rightarrow> (('r, 'p, 'm) rt, unit) eff" where
  "listenForBroadcasts_ok opts =
     bind (emit (ConsoleLog (check_mark @ lit '' (dabblebase): Joined broadcast channel '' @ [0x27] @
                             channelName opts @ [0x27] @ lit '' successfully''))) (\<lambda>_.
     call_opt (onConnect opts) OnConnect ())"

definition listenForBroadcasts_error ::
  "('r, 'p, 'z) broadcast_options_scheme \<Rightarrow> 'r \<Rightarrow> (('r, 'p, 'm) rt, unit) eff" where
  "listenForBroadcasts_error opts err =
     bind (emit (ConsoleError (cross_mark @ lit '' (dabblebase): Failed to join broadcast channel '' @ [0x27] @
                               channelName opts @ [0x27] @ lit '':'') err)) (\<lambda>_.
     bind (call_opt (onConnectError opts) (OnConnectError err) err) (\<lambda>_.
     raise (broadcast_join_failed (channelName opts))))"

text \<open>\<open>listenToPresenceChanges\<close>.\<close>

definition listenToPresenceChanges_ok ::
  "('r, 'm, 'z) presence_options_scheme \<Rightarrow> (('r, 'p, 'm) rt, unit) eff" where
  "listenToPresenceChanges_ok opts =
     bind (emit (ConsoleLog (check_mark @ lit '' (dabblebase): Joined presence channel successfully''))) (\<lambda>_.
     call_opt (onConnect opts) OnConnect ())"

definition listenToPresenceChanges_error ::
  "('r, 'm, 'z) presence_options_scheme \<Rightarrow> 'r \<Rightarrow> (('r, 'p, 'm) rt, unit) eff" where
  "listenToPresenceChanges_error opts err =
     bind (emit (ConsoleError (cross_mark @ lit '' (dabblebase): Failed to join presence channel:'') err)) (\<lambda>_.
     bind (call_opt (onConnectError opts) (OnConnectError err) err) (\<lambda>_.
     raise presence_join_failed))"

subsection \<open>The handlers of the channel's events\<close>

definition on_pg_change ::
  "('r, 'p, 'z) db_options_scheme \<Rightarrow> 'p \<Rightarrow> (('r, 'p, 'm) rt, unit) eff" where
  "on_pg_change opts payload = call_opt (onDbChange opts) (OnDbChange payload) payload"

definition on_message ::
  "('r, 'p, 'z) broadcast_options_scheme \<Rightarrow> 'p \<Rightarrow> (('r, 'p, 'm) rt, unit) eff" where
  "on_message opts payload = call_opt (onReceiveMessage opts) (OnReceiveMessage payload) payload"

definition on_presence_state ::
  "('r, 'm, 'z) presence_options_scheme \<Rightarrow> 'm PresenceState \<Rightarrow> (('r, 'p, 'm) rt, unit) eff" where
  "on_presence_state opts state =
     call_opt (onReceivePresenceState opts) (OnReceivePresenceState state) state"

text \<open>
  The handler of \<open>presence_diff\<close>: the joins, then the leaves, then the state that is
  rebuilt from the joins of this diff.
\<close>

definition on_presence_diff ::
  "('r, 'm, 'z) presence_options_scheme \<Rightarrow> ('m, 'y) presence_diff_scheme \<Rightarrow>
   (('r, 'p, 'm) rt, unit) eff" where
  "on_presence_diff opts diff =
     bind (forEach (\<lambda>(userId, metas).
             if length metas > 0
             then call_opt (onPresenceJoin opts) (OnPresenceJoin userId (metas ! 0)) (userId, metas ! 0)
             else ret ())
           (joins diff)) (\<lambda>_.
     bind (forEach (\<lambda>(userId, metas).
             if length metas > 0
             then call_opt (onPresenceLeave opts) (OnPresenceLeave userId (metas ! 0)) (userId, metas ! 0)
             else ret ())
           (leaves diff)) (\<lambda>_.
     (let combinedState = joins diff
      in call_opt (onReceivePresenceState opts) (OnReceivePresenceState combinedState) combinedState)))"

subsection \<open>The connection objects\<close>








text \<open>
  \<open>broadcast(payload)\<close> of a broadcast connection: \<open>channel.push("message", { payload })\<close>.
  \<open>pushed\<close> says how the library's \<open>push\<close> ends.
\<close>

definition broadcast :: "thrown option \<Rightarrow> 'p \<Rightarrow> (('r, 'p, 'm) rt, unit) eff" where
  "broadcast pushed payload =
     call (ChannelPush (lit ''message'') [(lit ''payload'', payload)]) pushed"

section \<open>Sample inputs\<close>

text \<open>Concrete inputs on which the theorems below are evaluated.\<close>

definition sample_config :: StorageClientConfiguration where
  "sample_config = \<lparr> projectId = lit ''p'', dabblebaseUrl = lit ''h'', projectToken = None \<rparr>"

text \<open>A response \<open>500 E\<close> with the given body, which is not JSON.\<close>

definition server_error :: "jsstring \<Rightarrow> unit response" where
  "server_error b =
     \<lparr> status = 500, statusText = lit ''E'', text_body = Inr b, json_body = Inl NonError \<rparr>"


text \<open>Options of a database listener whose \<open>onConnectError\<close> throws.\<close>

definition throwing_options :: "(unit, unit) db_options" where
  "throwing_options =
     \<lparr> onConnect = None, onConnectError = Some (\<lambda>_. Some NonError), onDbChange = None \<rparr>"

text \<open>Presence options whose \<open>onPresenceJoin\<close> throws.\<close>

definition throwing_join :: "(unit, PresenceUser) presence_options" where
  "throwing_join =
     \<lparr> onConnect = None, onConnectError = None,
       onReceivePresenceState = Some (\<lambda>_. None), onPresenceJoin = Some (\<lambda>_. Some NonError),
       onPresenceLeave = None \<rparr>"

text \<open>Presence options with every callback given, each returning normally.\<close>

definition all_callbacks :: "(unit, PresenceUser) presence_options" where
  "all_callbacks =
     \<lparr> onConnect = Some (\<lambda>_. None), onConnectError = Some (\<lambda>_. None),
       onReceivePresenceState = Some (\<lambda>_. None), onPresenceJoin = Some (\<lambda>_. None),
       onPresenceLeave = Some (\<lambda>_. None) \<rparr>"

section \<open>Storage: the preconditions of upload\<close>

text \<open>
  C7. \<open>upload\<close> without a file (whatever the path), and \<open>upload\<close> with a file and an empty
  path, end by throwing the missing-file and the missing-path error; the log of actions
  is empty: no form data was built, no request was made, no network call was issued.
  Both checks stand before the first \<open>await\<close> of the function.
\<close>

theorem upload_precondition:
  "upload cfg fetch url_of None path = (Inl no_file, []) \<and>
   upload cfg fetch url_of (Some f) [] = (Inl no_upload_path, [])"
  by (simp add: upload_def raise_def)

section \<open>Auth: verify\<close>

text \<open>
  C8. \<open>verify(undefined)\<close> returns \<open>{subject: null, error: Error("The user is not
  authenticated.")}\<close> for every verify key, also for an absent one, and the log holds no
  call of \<open>jwt.verify\<close>.
\<close>

theorem verify_undefined:
  "verify jwt_verify authVerifyKey None =
     (Inr \<lparr> subject = None, error = Some not_authenticated \<rparr>, [])"
  by (simp add: verify_def falsy_def ret_def)

text \<open>
  C4. For a token that is defined and not empty: without a verify key \<open>verify\<close> throws
  (and checks no signature); with a verify key, when \<open>jwt.verify\<close> rejects the token by
  throwing, \<open>verify\<close> returns a result whose subject is \<open>null\<close> and whose error is not.
\<close>

theorem verify_invalid_or_no_key:
  "\<not> falsy authToken \<Longrightarrow>
   (falsy authVerifyKey \<longrightarrow>
      verify jwt_verify authVerifyKey authToken = (Inl no_verify_key, [])) \<and>
   (\<not> falsy authVerifyKey \<longrightarrow>
      (\<forall>e. jwt_verify (or_empty authToken) (publicKey (or_empty authVerifyKey)) = Inl e \<longrightarrow>
        (\<exists>err. fst (verify jwt_verify authVerifyKey authToken) =
                  Inr \<lparr> subject = None, error = Some err \<rparr>)))"
  by (auto simp: verify_def raise_def verify_catch_def split: thrown.splits)

theorem verify_invalid_or_no_key_witness:
  "\<not> falsy (Some (lit ''t'')) \<and>
   verify (\<lambda>t k. (Inl NonError :: thrown + nat)) None (Some (lit ''t'')) =
     (Inl no_verify_key, []) \<and>
   (\<exists>err. fst (verify (\<lambda>t k. (Inl NonError :: thrown + nat)) (Some (lit ''k'')) (Some (lit ''t''))) =
            Inr \<lparr> subject = None, error = Some err \<rparr>)"
proof -
  have t: "\<not> falsy (Some (lit ''t''))"
    by (simp add: falsy_def lit_def)
  have k: "\<not> falsy (Some (lit ''k''))"
    by (simp add: falsy_def lit_def)
  have n: "falsy None"
    by (simp add: falsy_def)
  from verify_invalid_or_no_key [OF t, of None "\<lambda>t k. (Inl NonError :: thrown + nat)"] n
  have a: "verify (\<lambda>t k. (Inl NonError :: thrown + nat)) None (Some (lit ''t'')) =
     (Inl no_verify_key, [])"
    by simp
  from verify_invalid_or_no_key [OF t, of "Some (lit ''k'')" "\<lambda>t k. (Inl NonError :: thrown + nat)"] k
  have b: "\<exists>err. fst (verify (\<lambda>t k. (Inl NonError :: thrown + nat)) (Some (lit ''k'')) (Some (lit ''t''))) =
            Inr \<lparr> subject = None, error = Some err \<rparr>"
    by simp
  from t a b show ?thesis by simp
qed

text \<open>
  C10. Whenever \<open>verify\<close> returns a result, whatever the token and the key, exactly one of
  the result's \<open>subject\<close> and \<open>error\<close> is \<open>null\<close>: the early return and the \<open>catch\<close> block
  set the error only, and the success branch sets the subject to the payload of
  \<open>jwt.verify\<close>, which is a string or an object.
\<close>

theorem verify_exactly_one:
  "fst (verify jwt_verify authVerifyKey authToken) = Inr r \<Longrightarrow>
   (subject r = None) \<noteq> (error r = None)"
  by (auto simp: verify_def ret_def raise_def verify_catch_def
           split: if_splits sum.splits thrown.splits)

theorem verify_exactly_one_witness:
  "fst (verify (\<lambda>t k. Inr (7::nat)) (Some (lit ''k'')) (Some (lit ''t''))) =
     Inr \<lparr> subject = Some 7, error = None \<rparr> \<and>
   (subject \<lparr> subject = Some (7::nat), error = None \<rparr> = None) \<noteq>
   (error \<lparr> subject = Some (7::nat), error = None \<rparr> = None)"
proof -
  have h: "fst (verify (\<lambda>t k. Inr (7::nat)) (Some (lit ''k'')) (Some (lit ''t''))) =
     Inr \<lparr> subject = Some 7, error = None \<rparr>"
    by (simp add: verify_def falsy_def lit_def)
  from verify_exactly_one [OF h] h show ?thesis by simp
qed

section \<open>Storage: transport errors\<close>

lemma encode_a: "encodeURIComponent (lit ''a'') = Inr (lit ''a'')"
  by (simp add: lit_def uriUnreserved_def prepend_def)

lemma lit_a_nonempty: "lit ''a'' \<noteq> []"
  by (simp add: lit_def)

lemma server_error_not_ok: "\<not> ok (server_error b)"
  by (simp add: ok_def server_error_def)

lemma delete_failed_server_error:
  "delete_failed (server_error b) = delete_failed (server_error [])"
  by (simp add: delete_failed_def status_line_def server_error_def)

lemma delete_server_error:
  "(delete sample_config (\<lambda>_. Inr (server_error b)) (lit ''a'') :: (unit io, unit) eff) =
     (Inl (delete_failed (server_error b)), [Fetch (delete_request sample_config (lit ''a''))])"
  by (simp add: delete_def encode_a lit_a_nonempty server_error_not_ok
        bind_def lift_def do_fetch_def raise_def)

text \<open>
  What the three operations do when \<open>fetch\<close> answers with a response that is not \<open>ok\<close>:
  \<^item> \<open>upload\<close> (file given, path not empty and encodable) reads the response's text and,
    when the text can be read, throws an error made of the status, the status text and
    that text;
  \<^item> \<open>list\<close> does the same;
  \<^item> \<open>delete\<close> (path not empty and encodable) throws an error made of the status and the
    status text only, and does not read the body.
  None of the three returns a result.
\<close>

theorem transport_error:
  "\<not> ok response \<Longrightarrow>
   (path \<noteq> [] \<and> encodeURIComponent path = Inr ep \<and>
    fetch (upload_request cfg f ep) = Inr response \<and> text_body response = Inr errorText \<longrightarrow>
      upload cfg fetch url_of (Some f) path =
        (Inl (upload_failed response errorText),
         [NewFormData, FormDataAppend (lit ''file'') f, Fetch (upload_request cfg f ep), ReadText])) \<and>
   (fetch (list_request cfg) = Inr response \<and> text_body response = Inr errorText \<longrightarrow>
      list_files cfg fetch =
        (Inl (list_failed response errorText),
         [Fetch (list_request cfg), ReadText])) \<and>
   (path \<noteq> [] \<and> encodeURIComponent path = Inr ep \<and>
    fetch (delete_request cfg ep) = Inr response \<longrightarrow>
      delete cfg fetch path =
        (Inl (delete_failed response), [Fetch (delete_request cfg ep)]))"
  by (simp add: upload_def list_files_def delete_def bind_def emit_def lift_def
        do_fetch_def read_text_def raise_def)

theorem transport_error_sample:
  "\<not> ok (server_error (lit ''boom'')) \<and>
   upload sample_config (\<lambda>_. Inr (server_error (lit ''boom''))) (\<lambda>_. Inl NonError)
       (Some ()) (lit ''a'') =
     (Inl (upload_failed (server_error (lit ''boom'')) (lit ''boom'')),
      [NewFormData, FormDataAppend (lit ''file'') (),
       Fetch (upload_request sample_config () (lit ''a'')), ReadText]) \<and>
   (list_files sample_config (\<lambda>_. Inr (server_error (lit ''boom''))) :: (unit io, unit) eff) =
     (Inl (list_failed (server_error (lit ''boom'')) (lit ''boom'')),
      [Fetch (list_request sample_config), ReadText]) \<and>
   (delete sample_config (\<lambda>_. Inr (server_error (lit ''boom''))) (lit ''a'')
      :: (unit io, unit) eff) =
     (Inl (delete_failed (server_error (lit ''boom''))),
      [Fetch (delete_request sample_config (lit ''a''))])"
proof -
  have t: "text_body (server_error (lit ''boom'')) = Inr (lit ''boom'')"
    by (simp add: server_error_def)
  from transport_error [OF server_error_not_ok [of "lit ''boom''"],
      where path = "lit ''a''" and ep = "lit ''a''"
      and fetch = "\<lambda>_. Inr (server_error (lit ''boom''))" and cfg = sample_config and f = "()"
      and url_of = "\<lambda>_. Inl NonError" and errorText = "lit ''boom''"]
  show ?thesis
    by (simp add: encode_a lit_a_nonempty server_error_not_ok t)
qed

text \<open>
  C2. The claim holds for \<open>upload\<close> and \<open>list\<close> and fails for \<open>delete\<close>. On the path \<open>a\<close>
  and a response \<open>500 E\<close> with the body \<open>boom\<close>, \<open>delete\<close> throws an error that is the same
  for every body (here it is shown equal to the one for the empty body), and its log
  has the network call but no read of the response's text: the error is made from the
  status line alone.
\<close>

theorem delete_error_omits_body:
  "\<not> ok (server_error (lit ''boom'')) \<and>
   fst (delete sample_config (\<lambda>_. Inr (server_error (lit ''boom''))) (lit ''a'')
        :: (unit io, unit) eff) =
     Inl (delete_failed (server_error [])) \<and>
   ReadText \<notin> set (snd (delete sample_config (\<lambda>_. Inr (server_error (lit ''boom''))) (lit ''a'')
        :: (unit io, unit) eff))"
proof -
  have "delete_failed (server_error (lit ''boom'')) = delete_failed (server_error [])"
    by (rule delete_failed_server_error)
  then show ?thesis
    by (simp add: delete_server_error server_error_not_ok)
qed

section \<open>Realtime: a failed join\<close>

lemma call_opt_Some:
  "call_opt (Some f) e a = ((case f a of None \<Rightarrow> Inr () | Some x \<Rightarrow> Inl x), [e])"
  by (simp add: call_opt_def call_def split: option.splits)

lemma call_opt_None: "call_opt None e a = (Inr (), [])"
  by (simp add: call_opt_def ret_def)

text \<open>
  C5, as the claim states it, fails: when the caller's \<open>onConnectError\<close> throws, what the
  continuation raises is the callback's own throw, and the fatal error of the listener
  is never raised.
\<close>

theorem join_failure_throwing_callback_counterexample:
  "(listenToDbChanges_error throwing_options () :: ((unit, unit, unit) rt, unit) eff) =
     (Inl NonError,
      [ConsoleError (cross_mark @ lit '' (dabblebase): Failed to join database channel:'') (),
       OnConnectError ()]) \<and>
   NonError \<noteq> db_join_failed"
  by (simp add: listenToDbChanges_error_def throwing_options_def call_opt_Some bind_def
        emit_def db_join_failed_def new_Error_def)

text \<open>
  C5, amended. The \<open>error\<close> continuation of the join, for each of the three listeners: it
  writes to the console, calls the caller's \<open>onConnectError\<close> with the reply (when the
  caller gave one), and then throws: the outcome is always a throw, never a return. The
  call of the callback stands in the log before the throw. What is thrown is the fatal
  error of the listener when the callback returns normally or was not given, and the
  callback's own throw when the callback throws.
\<close>

theorem join_failure_callback_then_raise:
  "listenToDbChanges_error d err =
     (case onConnectError d of
        None \<Rightarrow>
          (Inl db_join_failed,
           [ConsoleError (cross_mark @ lit '' (dabblebase): Failed to join database channel:'') err])
      | Some f \<Rightarrow>
          (Inl (case f err of None \<Rightarrow> db_join_failed | Some x \<Rightarrow> x),
           [ConsoleError (cross_mark @ lit '' (dabblebase): Failed to join database channel:'') err,
            OnConnectError err])) \<and>
   listenForBroadcasts_error b err =
     (case onConnectError b of
        None \<Rightarrow>
          (Inl (broadcast_join_failed (channelName b)),
           [ConsoleError (cross_mark @ lit '' (dabblebase): Failed to join broadcast channel '' @
                          [0x27] @ channelName b @ [0x27] @ lit '':'') err])
      | Some f \<Rightarrow>
          (Inl (case f err of None \<Rightarrow> broadcast_join_failed (channelName b) | Some x \<Rightarrow> x),
           [ConsoleError (cross_mark @ lit '' (dabblebase): Failed to join broadcast channel '' @
                          [0x27] @ channelName b @ [0x27] @ lit '':'') err,
            OnConnectError err])) \<and>
   listenToPresenceChanges_error p err =
     (case onConnectError p of
        None \<Rightarrow>
          (Inl presence_join_failed,
           [ConsoleError (cross_mark @ lit '' (dabblebase): Failed to join presence channel:'') err])
      | Some f \<Rightarrow>
          (Inl (case f err of None \<Rightarrow> presence_join_failed | Some x \<Rightarrow> x),
           [ConsoleError (cross_mark @ lit '' (dabblebase): Failed to join presence channel:'') err,
            OnConnectError err]))"
  by (auto simp: listenToDbChanges_error_def listenForBroadcasts_error_def
        listenToPresenceChanges_error_def call_opt_Some call_opt_None bind_def emit_def raise_def
        split: option.splits)

section \<open>Realtime: disconnect\<close>






section \<open>Realtime: presence diffs\<close>

lemma call_opt_events: "e' \<in> set (snd (call_opt cb e a)) \<Longrightarrow> e' = e"
  by (auto simp: call_opt_def call_def ret_def split: option.splits)

lemma bind_events:
  "e \<in> set (snd (bind m f)) \<Longrightarrow> e \<in> set (snd m) \<or> (\<exists>a. e \<in> set (snd (f a)))"
  by (auto simp: bind_def split: sum.splits)

text \<open>The loop over the entries, when the callback (if given) never throws.\<close>

lemma forEach_calls:
  assumes "\<And>f a. cb = Some f \<Longrightarrow> f a = None"
  shows "forEach (\<lambda>(userId, metas).
            if length metas > 0 then call_opt cb (E userId (metas ! 0)) (userId, metas ! 0)
            else ret ()) xs =
         (Inr (), case cb of None \<Rightarrow> []
                  | Some _ \<Rightarrow> map (\<lambda>(u, ms). E u (hd ms)) (filter (\<lambda>(u, ms). ms \<noteq> []) xs))"
proof (induction xs)
  case Nil
  show ?case by (simp add: ret_def split: option.splits)
next
  case (Cons x xs)
  obtain u ms where x: "x = (u, ms)" by (cases x)
  show ?case
  proof (cases cb)
    case None
    with Cons show ?thesis
      by (simp add: x bind_def call_opt_def ret_def)
  next
    case (Some f)
    with assms have "f (u, ms ! 0) = None" by simp
    with Some Cons show ?thesis
      by (simp add: x bind_def call_opt_def call_def ret_def hd_conv_nth)
  qed
qed

text \<open>The loop over the entries, whatever the callback does: which calls can be logged.\<close>

lemma forEach_events:
  "e \<in> set (snd (forEach (\<lambda>(userId, metas).
            if length metas > 0 then call_opt cb (E userId (metas ! 0)) (userId, metas ! 0)
            else ret ()) xs)) \<Longrightarrow>
   \<exists>u ms. (u, ms) \<in> set xs \<and> ms \<noteq> [] \<and> e = E u (hd ms)"
proof (induction xs)
  case Nil
  then show ?case by (simp add: ret_def)
next
  case (Cons x xs)
  obtain u ms where x: "x = (u, ms)" by (cases x)
  from Cons.prems
  have "e \<in> set (snd (if length ms > 0 then call_opt cb (E u (ms ! 0)) (u, ms ! 0) else ret ())) \<or>
        e \<in> set (snd (forEach (\<lambda>(userId, metas).
            if length metas > 0 then call_opt cb (E userId (metas ! 0)) (userId, metas ! 0)
            else ret ()) xs))"
    by (auto simp: x dest!: bind_events)
  then show ?case
  proof
    assume a: "e \<in> set (snd (if length ms > 0 then call_opt cb (E u (ms ! 0)) (u, ms ! 0) else ret ()))"
    then have "ms \<noteq> []" by (auto simp: ret_def split: if_splits)
    moreover from a have "e = E u (hd ms)"
      by (auto simp: ret_def hd_conv_nth split: if_splits dest: call_opt_events)
    ultimately show ?thesis using x by auto
  next
    assume "e \<in> set (snd (forEach (\<lambda>(userId, metas).
            if length metas > 0 then call_opt cb (E userId (metas ! 0)) (userId, metas ! 0)
            else ret ()) xs))"
    from Cons.IH [OF this] show ?thesis by auto
  qed
qed

lemma on_presence_diff_events:
  "e \<in> set (snd (on_presence_diff opts diff)) \<Longrightarrow>
   (\<exists>u ms. (u, ms) \<in> set (joins diff) \<and> ms \<noteq> [] \<and> e = OnPresenceJoin u (hd ms)) \<or>
   (\<exists>u ms. (u, ms) \<in> set (leaves diff) \<and> ms \<noteq> [] \<and> e = OnPresenceLeave u (hd ms)) \<or>
   e = OnReceivePresenceState (joins diff)"
  unfolding on_presence_diff_def Let_def
  apply (drule bind_events)
  apply (erule disjE)
   apply (drule forEach_events)
   apply blast
  apply (erule exE)
  apply (drule bind_events)
  apply (erule disjE)
   apply (drule forEach_events)
   apply blast
  apply (erule exE)
  apply (drule call_opt_events)
  apply blast
  done

lemma empty_entry_unique:
  "distinct (map fst xs) \<Longrightarrow> (u, []) \<in> set xs \<Longrightarrow> (u, ms) \<in> set xs \<Longrightarrow> ms = []"
  by (metis eq_key_imp_eq_value)

text \<open>
  C1, as the claim states it, fails: for a diff whose joins hold the user \<open>u1\<close> with an
  empty list of metadata the handler calls no \<open>onPresenceJoin\<close> at all, although \<open>u1\<close> is a
  user of \<open>diff.joins\<close>; only the state callback is called.
\<close>

theorem presence_diff_empty_metas_counterexample:
  "on_presence_diff all_callbacks \<lparr> joins = [(lit ''u1'', [])], leaves = [] \<rparr> =
   (Inr (), [OnReceivePresenceState [(lit ''u1'', [])]])"
  by (simp add: on_presence_diff_def all_callbacks_def bind_def ret_def call_opt_def call_def)

text \<open>
  C1, amended. When the callbacks that the caller gave return normally, the handler of a
  presence diff calls \<open>onPresenceJoin\<close> once for every entry of \<open>diff.joins\<close> whose metadata
  list is not empty, with the first metadata entry, in the order of the entries; then
  \<open>onPresenceLeave\<close> likewise for \<open>diff.leaves\<close>; then \<open>onReceivePresenceState\<close> with a state
  that is \<open>diff.joins\<close> and nothing else. A callback that was not given is not called.
\<close>

theorem presence_diff_calls:
  assumes "\<And>f a. onPresenceJoin opts = Some f \<Longrightarrow> f a = None"
    and "\<And>f a. onPresenceLeave opts = Some f \<Longrightarrow> f a = None"
    and "\<And>f. onReceivePresenceState opts = Some f \<Longrightarrow> f (joins diff) = None"
  shows "on_presence_diff opts diff =
    (Inr (),
     (case onPresenceJoin opts of None \<Rightarrow> []
      | Some _ \<Rightarrow> map (\<lambda>(u, ms). OnPresenceJoin u (hd ms))
                   (filter (\<lambda>(u, ms). ms \<noteq> []) (joins diff))) @
     (case onPresenceLeave opts of None \<Rightarrow> []
      | Some _ \<Rightarrow> map (\<lambda>(u, ms). OnPresenceLeave u (hd ms))
                   (filter (\<lambda>(u, ms). ms \<noteq> []) (leaves diff))) @
     (case onReceivePresenceState opts of None \<Rightarrow> []
      | Some _ \<Rightarrow> [OnReceivePresenceState (joins diff)]))"
proof -
  have s: "call_opt (onReceivePresenceState opts) (OnReceivePresenceState (joins diff)) (joins diff) =
        (Inr (), case onReceivePresenceState opts of None \<Rightarrow> []
                 | Some _ \<Rightarrow> [OnReceivePresenceState (joins diff)])"
    using assms(3) by (auto simp: call_opt_def call_def ret_def split: option.splits)
  have j: "forEach (\<lambda>(userId, metas).
            if length metas > 0
            then call_opt (onPresenceJoin opts) (OnPresenceJoin userId (metas ! 0)) (userId, metas ! 0)
            else ret ()) (joins diff) =
         (Inr (), case onPresenceJoin opts of None \<Rightarrow> []
                  | Some _ \<Rightarrow> map (\<lambda>(u, ms). OnPresenceJoin u (hd ms))
                               (filter (\<lambda>(u, ms). ms \<noteq> []) (joins diff)))"
    by (rule forEach_calls) (rule assms(1))
  have l: "forEach (\<lambda>(userId, metas).
            if length metas > 0
            then call_opt (onPresenceLeave opts) (OnPresenceLeave userId (metas ! 0)) (userId, metas ! 0)
            else ret ()) (leaves diff) =
         (Inr (), case onPresenceLeave opts of None \<Rightarrow> []
                  | Some _ \<Rightarrow> map (\<lambda>(u, ms). OnPresenceLeave u (hd ms))
                               (filter (\<lambda>(u, ms). ms \<noteq> []) (leaves diff)))"
    by (rule forEach_calls) (rule assms(2))
  show ?thesis
    unfolding on_presence_diff_def Let_def j l s
    by (simp add: bind_def)
qed

text \<open>
  Why the callbacks must return: a throw of \<open>onPresenceJoin\<close> at the first user ends the
  handler, so the second user gets no call and no snapshot is sent.
\<close>

lemma presence_diff_throwing_callback:
  "on_presence_diff throwing_join
     \<lparr> joins = [(lit ''u1'', [\<lparr> online_at = lit ''t1'' \<rparr>]),
                (lit ''u2'', [\<lparr> online_at = lit ''t2'' \<rparr>])],
       leaves = [] \<rparr> =
   (Inl NonError, [OnPresenceJoin (lit ''u1'') \<lparr> online_at = lit ''t1'' \<rparr>])"
  by (simp add: on_presence_diff_def throwing_join_def bind_def call_opt_def call_def)

text \<open>
  The example of the specification: joins \<open>{u1: [{online_at: "t1"}]}\<close> and no leaves give
  one call \<open>onPresenceJoin("u1", {online_at: "t1"})\<close> and then the snapshot with \<open>u1\<close>.
\<close>

theorem presence_diff_calls_witness:
  "on_presence_diff all_callbacks
     \<lparr> joins = [(lit ''u1'', [\<lparr> online_at = lit ''t1'' \<rparr>])], leaves = [] \<rparr> =
   (Inr (), [OnPresenceJoin (lit ''u1'') \<lparr> online_at = lit ''t1'' \<rparr>,
             OnReceivePresenceState [(lit ''u1'', [\<lparr> online_at = lit ''t1'' \<rparr>])]])"
  by (subst presence_diff_calls) (auto simp: all_callbacks_def)

text \<open>
  C9. In a presence diff (an object: its user ids are distinct), a user whose metadata
  list in \<open>diff.joins\<close> is empty gets no \<open>onPresenceJoin\<close> call, and a user whose metadata
  list in \<open>diff.leaves\<close> is empty gets no \<open>onPresenceLeave\<close> call, whatever the callbacks do.
\<close>

theorem empty_metas_no_callback:
  "(distinct (map fst (joins diff)) \<and> (u, []) \<in> set (joins diff) \<longrightarrow>
      OnPresenceJoin u m \<notin> set (snd (on_presence_diff opts diff))) \<and>
   (distinct (map fst (leaves diff)) \<and> (u, []) \<in> set (leaves diff) \<longrightarrow>
      OnPresenceLeave u m \<notin> set (snd (on_presence_diff opts diff)))"
  by (auto dest!: on_presence_diff_events dest: empty_entry_unique)

theorem empty_metas_no_callback_witness:
  "distinct (map fst [(lit ''u1'', []), (lit ''u2'', [\<lparr> online_at = lit ''t2'' \<rparr>])]) \<and>
   (lit ''u1'', []) \<in> set [(lit ''u1'', []), (lit ''u2'', [\<lparr> online_at = lit ''t2'' \<rparr>])] \<and>
   OnPresenceJoin (lit ''u1'') \<lparr> online_at = lit ''t2'' \<rparr> \<notin>
     set (snd (on_presence_diff all_callbacks
       \<lparr> joins = [(lit ''u1'', []), (lit ''u2'', [\<lparr> online_at = lit ''t2'' \<rparr>])],
         leaves = [(lit ''u1'', [])] \<rparr> ::
       ((unit, unit, PresenceUser) rt, unit) eff)) \<and>
   OnPresenceLeave (lit ''u1'') \<lparr> online_at = lit ''t2'' \<rparr> \<notin>
     set (snd (on_presence_diff all_callbacks
       \<lparr> joins = [(lit ''u1'', []), (lit ''u2'', [\<lparr> online_at = lit ''t2'' \<rparr>])],
         leaves = [(lit ''u1'', [])] \<rparr> ::
       ((unit, unit, PresenceUser) rt, unit) eff))"
proof -
  have d: "distinct (map fst [(lit ''u1'', []), (lit ''u2'', [\<lparr> online_at = lit ''t2'' \<rparr>])])"
    by (simp add: lit_def)
  from d empty_metas_no_callback [where u = "lit ''u1''" and m = "\<lparr> online_at = lit ''t2'' \<rparr>"
      and opts = all_callbacks
      and diff = "\<lparr> joins = [(lit ''u1'', []), (lit ''u2'', [\<lparr> online_at = lit ''t2'' \<rparr>])],
                    leaves = [(lit ''u1'', [])] \<rparr>"]
  show ?thesis by simp
qed

section \<open>Storage: getUrl\<close>

subsection \<open>What encodeURIComponent writes\<close>

lemma unat_slash: "unat slash = 47"
  by (simp add: slash_def)

lemma unreserved_not_surrogate:
  "uriUnreserved c \<Longrightarrow> \<not> isLeadingSurrogate c \<and> \<not> isTrailingSurrogate c"
  by (auto simp: uriUnreserved_def isLeadingSurrogate_def isTrailingSurrogate_def Let_def)

lemma unreserved_not_slash: "uriUnreserved c \<Longrightarrow> c \<noteq> slash"
  by (auto simp: uriUnreserved_def Let_def unat_slash)

lemma slash_not_surrogate: "\<not> isLeadingSurrogate slash \<and> \<not> isTrailingSurrogate slash"
  by (simp add: isLeadingSurrogate_def isTrailingSurrogate_def unat_slash)

lemma unat_small: "n < 65536 \<Longrightarrow> unat (of_nat n :: 16 word) = n"
  by (simp add: unat_of_nat)

lemma unat_hexDigit: "d < 16 \<Longrightarrow> unat (hexDigit d) = (if d < 10 then 48 + d else 55 + d)"
proof (cases "d < 10")
  case True
  then have "unat (of_nat (48 + d) :: 16 word) = 48 + d" by (intro unat_small) simp
  with True show ?thesis by (simp only: hexDigit_def if_True)
next
  case False
  assume "d < 16"
  then have "unat (of_nat (55 + d) :: 16 word) = 55 + d" by (intro unat_small) simp
  with False show ?thesis by (simp only: hexDigit_def if_False)
qed

lemma hexDigit_not_slash: "d < 16 \<Longrightarrow> hexDigit d \<noteq> slash"
proof
  assume d: "d < 16" and "hexDigit d = slash"
  then have "unat (hexDigit d) = 47" by (simp only: unat_slash)
  with unat_hexDigit [OF d] show False
    by (simp split: if_splits)
qed

lemma percent_not_slash: "(0x25 :: 16 word) \<noteq> slash"
  by (simp add: slash_def)

lemma percentEncode_no_slash:
  "\<forall>b\<in>set bs. b < 256 \<Longrightarrow> slash \<notin> set (percentEncode bs)"
proof (induction bs)
  case Nil
  show ?case by (simp add: percentEncode_def)
next
  case (Cons b bs)
  then have b: "b < 256" and IH: "slash \<notin> set (percentEncode bs)" by simp_all
  from b have "b div 16 < 16" by simp
  then have h: "hexDigit (b div 16) \<noteq> slash" by (rule hexDigit_not_slash)
  have l: "hexDigit (b mod 16) \<noteq> slash" by (rule hexDigit_not_slash) simp
  have "percentEncode (b # bs) = [0x25, hexDigit (b div 16), hexDigit (b mod 16)] @ percentEncode bs"
    by (simp add: percentEncode_def)
  with h l IH percent_not_slash show ?case by auto
qed

lemma utf8Encode_octets: "cp < 0x110000 \<Longrightarrow> \<forall>b\<in>set (utf8Encode cp). b < 256"
  by (auto simp: utf8Encode_def)

lemma pairToCodePoint_bound:
  "isLeadingSurrogate c \<Longrightarrow> isTrailingSurrogate d \<Longrightarrow> pairToCodePoint c d < 0x110000"
proof -
  assume "isLeadingSurrogate c" and "isTrailingSurrogate d"
  then have c: "unat c - 0xD800 \<le> 1023" and d: "unat d - 0xDC00 \<le> 1023"
    unfolding isLeadingSurrogate_def isTrailingSurrogate_def by linarith+
  from c have "(unat c - 0xD800) * 0x400 \<le> 1023 * 0x400"
    by (rule mult_le_mono1)
  with d show ?thesis
    unfolding pairToCodePoint_def by linarith
qed

lemma unit_bound: "unat (c :: 16 word) < 0x110000"
proof -
  have "unat c < 2 ^ LENGTH(16)" by (rule unsigned_less)
  then show ?thesis by simp
qed

lemma prepend_Inr: "prepend p r = Inr t \<Longrightarrow> \<exists>s. r = Inr s \<and> t = p @ s"
  by (auto simp: prepend_def split: sum.splits)

lemma encode_no_slash: "encodeURIComponent s = Inr t \<Longrightarrow> slash \<notin> set t"
proof (induction s arbitrary: t rule: encodeURIComponent.induct)
  case 1
  then show ?case by simp
next
  case (2 c cs)
  show ?case
  proof (cases "uriUnreserved c")
    case True
    with "2.prems" obtain r where r: "encodeURIComponent cs = Inr r" "t = [c] @ r"
      by (auto dest: prepend_Inr)
    from "2.IH"(1) [OF True r(1)] unreserved_not_slash [OF True] r(2) show ?thesis by auto
  next
    case False
    note nu = this
    show ?thesis
    proof (cases "isLeadingSurrogate c")
      case True
      with nu "2.prems" obtain d ds where cs: "cs = d # ds" and tr: "isTrailingSurrogate d"
        by (auto split: list.splits if_splits)
      with nu True "2.prems" obtain r where
        r: "encodeURIComponent ds = Inr r" "t = percentEncode (utf8Encode (pairToCodePoint c d)) @ r"
        by (auto dest: prepend_Inr)
      have "slash \<notin> set (percentEncode (utf8Encode (pairToCodePoint c d)))"
        by (intro percentEncode_no_slash utf8Encode_octets pairToCodePoint_bound True tr)
      with "2.IH"(2) [OF nu True cs tr r(1)] r(2) show ?thesis by auto
    next
      case False
      with nu "2.prems" have nt: "\<not> isTrailingSurrogate c" by (auto split: if_splits)
      with nu False "2.prems" obtain r where
        r: "encodeURIComponent cs = Inr r" "t = percentEncode (utf8Encode (unat c)) @ r"
        by (auto dest: prepend_Inr)
      have "slash \<notin> set (percentEncode (utf8Encode (unat c)))"
        by (intro percentEncode_no_slash utf8Encode_octets unit_bound)
      with "2.IH"(3) [OF nu False nt r(1)] r(2) show ?thesis by auto
    qed
  qed
qed

lemma encode_wellformed: "isWellFormed s \<Longrightarrow> \<exists>t. encodeURIComponent s = Inr t"
proof (induction s rule: encodeURIComponent.induct)
  case 1
  show ?case by simp
next
  case (2 c cs)
  show ?case
  proof (cases "uriUnreserved c")
    case True
    with "2.prems" unreserved_not_surrogate [OF True] have "isWellFormed cs" by simp
    from "2.IH"(1) [OF True this] True show ?thesis by (auto simp: prepend_def)
  next
    case False
    note nu = this
    show ?thesis
    proof (cases "isLeadingSurrogate c")
      case True
      with "2.prems" obtain d ds where cs: "cs = d # ds" and tr: "isTrailingSurrogate d"
        and wf: "isWellFormed ds"
        by (auto split: list.splits)
      from "2.IH"(2) [OF nu True cs tr wf] nu True cs tr show ?thesis
        by (auto simp: prepend_def)
    next
      case False
      with "2.prems" have nt: "\<not> isTrailingSurrogate c" and wf: "isWellFormed cs" by simp_all
      from "2.IH"(3) [OF nu False nt wf] nu False nt show ?thesis
        by (auto simp: prepend_def)
    qed
  qed
qed

lemma encode_malformed: "\<not> isWellFormed s \<Longrightarrow> encodeURIComponent s = Inl URIError"
proof (induction s rule: encodeURIComponent.induct)
  case 1
  then show ?case by simp
next
  case (2 c cs)
  show ?case
  proof (cases "uriUnreserved c")
    case True
    with "2.prems" unreserved_not_surrogate [OF True] have "\<not> isWellFormed cs" by simp
    from "2.IH"(1) [OF True this] True show ?thesis by (simp add: prepend_def)
  next
    case False
    note nu = this
    show ?thesis
    proof (cases "isLeadingSurrogate c")
      case True
      note ld = this
      show ?thesis
      proof (cases cs)
        case Nil
        with nu ld show ?thesis by simp
      next
        case (Cons d ds)
        show ?thesis
        proof (cases "isTrailingSurrogate d")
          case True
          with "2.prems" ld Cons have "\<not> isWellFormed ds" by simp
          from "2.IH"(2) [OF nu ld Cons True this] nu ld Cons True show ?thesis
            by (simp add: prepend_def)
        next
          case False
          with nu ld Cons show ?thesis by simp
        qed
      qed
    next
      case False
      note nl = this
      show ?thesis
      proof (cases "isTrailingSurrogate c")
        case True
        with nu nl show ?thesis by simp
      next
        case False
        with "2.prems" nl have "\<not> isWellFormed cs" by simp
        from "2.IH"(3) [OF nu nl False this] nu nl False show ?thesis
          by (simp add: prepend_def)
      qed
    qed
  qed
qed

subsection \<open>split and join\<close>

lemma split_nonempty: "split sep s \<noteq> []"
  by (induction s) (auto split: list.splits)

lemma join_split: "join sep (split sep s) = s"
proof (induction s)
  case Nil
  show ?case by simp
next
  case (Cons c cs)
  obtain t ts where ts: "split sep cs = t # ts"
    using split_nonempty [of sep cs] by (cases "split sep cs") auto
  with Cons show ?case
    by (cases ts) auto
qed

lemma split_append_sep:
  "sep \<notin> set s \<Longrightarrow> split sep (s @ sep # r) = s # split sep r"
  by (induction s) auto

lemma split_no_sep: "sep \<notin> set s \<Longrightarrow> split sep s = [s]"
  by (induction s) auto

lemma split_join:
  "ss \<noteq> [] \<Longrightarrow> \<forall>s\<in>set ss. sep \<notin> set s \<Longrightarrow> split sep (join sep ss) = ss"
proof (induction ss rule: join.induct)
  case (1 sep)
  then show ?case by simp
next
  case (2 sep s)
  then show ?case by (simp add: split_no_sep)
next
  case (3 sep s t ss)
  then show ?case by (simp add: split_append_sep)
qed

lemma wellFormed_split:
  "isWellFormed s = list_all isWellFormed (split slash s)"
proof (induction s rule: isWellFormed.induct)
  case 1
  show ?case by simp
next
  case (2 c cs)
  show ?case
  proof (cases "isLeadingSurrogate c")
    case True
    note ld = this
    then have cn: "c \<noteq> slash" using slash_not_surrogate by auto
    show ?thesis
    proof (cases cs)
      case Nil
      with ld cn show ?thesis by simp
    next
      case (Cons d ds)
      obtain t ts where ts: "split slash ds = t # ts"
        using split_nonempty [of slash ds] by (cases "split slash ds") auto
      show ?thesis
      proof (cases "isTrailingSurrogate d")
        case True
        then have dn: "d \<noteq> slash" using slash_not_surrogate by auto
        from "2.IH"(1) [OF ld Cons] ts have "isWellFormed ds = (isWellFormed t \<and> list_all isWellFormed ts)"
          by simp
        with ld cn Cons True dn ts show ?thesis by simp
      next
        case False
        with ld cn Cons ts show ?thesis by (auto split: list.splits)
      qed
    qed
  next
    case False
    note nl = this
    obtain t ts where ts: "split slash cs = t # ts"
      using split_nonempty [of slash cs] by (cases "split slash cs") auto
    from "2.IH"(2) [OF nl] ts have IH: "isWellFormed cs = (isWellFormed t \<and> list_all isWellFormed ts)"
      by simp
    show ?thesis
    proof (cases "c = slash")
      case True
      with nl IH ts slash_not_surrogate show ?thesis by simp
    next
      case False
      with nl IH ts show ?thesis by auto
    qed
  qed
qed

lemma map_throw_all:
  "\<forall>x\<in>set xs. \<exists>y. f x = Inr y \<Longrightarrow>
   \<exists>ys. map_throw f xs = Inr ys \<and> list_all2 (\<lambda>x y. f x = Inr y) xs ys"
  by (induction xs) auto

lemma map_throw_fails:
  "\<forall>x\<in>set xs. (\<exists>y. f x = Inr y) \<or> f x = Inl e \<Longrightarrow> \<exists>x\<in>set xs. f x = Inl e \<Longrightarrow>
   map_throw f xs = Inl e"
proof (induction xs)
  case Nil
  then show ?case by simp
next
  case (Cons x xs)
  show ?case
  proof (cases "f x")
    case (Inl e')
    with Cons.prems(1) have "e' = e" by auto
    with Inl show ?thesis by simp
  next
    case (Inr y)
    with Cons.prems have "\<exists>x\<in>set xs. f x = Inl e" by auto
    moreover from Cons.prems have "\<forall>x\<in>set xs. (\<exists>y. f x = Inr y) \<or> f x = Inl e" by simp
    ultimately have "map_throw f xs = Inl e" by (rule Cons.IH [rotated])
    with Inr show ?thesis by simp
  qed
qed

lemma encoded_segments_no_slash:
  "list_all2 (\<lambda>s t. encodeURIComponent s = Inr t) xs ys \<Longrightarrow> \<forall>t\<in>set ys. slash \<notin> set t"
  by (induction rule: list_all2_induct) (auto dest: encode_no_slash)

lemma sample_path_ok:
  "lit ''a b/c'' \<noteq> [] \<and> isWellFormed (lit ''a b/c'') \<and>
   isWellFormed (or_empty (projectToken sample_config))"
  by (simp add: lit_def isLeadingSurrogate_def isTrailingSurrogate_def or_empty_def
        sample_config_def)

lemma getUrl_sample:
  "(getUrl sample_config (lit ''a b/c'') :: (unit io, jsstring) eff) =
     (Inr (lit ''h/api/project/p/storage/view/a%20b/c?X-Project-Token=''), [])"
  by (simp add: getUrl_def view_url_def sample_config_def or_empty_def lit_def slash_def
        uriUnreserved_def isLeadingSurrogate_def isTrailingSurrogate_def prepend_def
        percentEncode_def utf8Encode_def hexDigit_def bind_def lift_def ret_def)


text \<open>
  C6, as the claim states it, fails: the one-unit path made of the unpaired surrogate
  \<open>U+D800\<close> is not empty, and \<open>getUrl\<close> throws the \<open>URIError\<close> of \<open>encodeURIComponent\<close>
  instead of producing a URL.
\<close>

theorem getUrl_unpaired_surrogate_counterexample:
  "[0xD800] \<noteq> ([] :: jsstring) \<and> fst (getUrl sample_config [0xD800]) = Inl URIError"
  by (simp add: getUrl_def slash_def isLeadingSurrogate_def uriUnreserved_def bind_def lift_def)

text \<open>
  C6, amended. \<open>getUrl\<close> never makes a network call: its log of actions is empty for every
  path. For a path that is not empty, when the path and the project token are well
  formed (no unpaired surrogate), it returns the view URL whose path part is the join
  with \<open>/\<close> of the segments' encodings: each segment of \<open>path.split("/")\<close> is encoded by
  \<open>encodeURIComponent\<close> on its own, and splitting the encoded path at \<open>/\<close> gives these
  encodings back, so the separators are kept and none is added. When the path or the
  token is not well formed, \<open>getUrl\<close> throws \<open>URIError\<close>.
\<close>

theorem getUrl_encodes_segments:
  "snd (getUrl cfg path) = [] \<and>
   (path \<noteq> [] \<and> isWellFormed path \<and> isWellFormed (or_empty (projectToken cfg)) \<longrightarrow>
      (\<exists>segments encodedToken.
         getUrl cfg path = (Inr (view_url cfg (join slash segments) encodedToken), []) \<and>
         list_all2 (\<lambda>s t. encodeURIComponent s = Inr t) (split slash path) segments \<and>
         split slash (join slash segments) = segments \<and>
         encodeURIComponent (or_empty (projectToken cfg)) = Inr encodedToken)) \<and>
   (path \<noteq> [] \<and> \<not> (isWellFormed path \<and> isWellFormed (or_empty (projectToken cfg))) \<longrightarrow>
      getUrl cfg path = (Inl URIError, []))"
proof (intro conjI impI)
  show "snd (getUrl cfg path) = []"
    by (simp add: getUrl_def raise_def bind_def lift_def ret_def split: sum.splits)
next
  assume a: "path \<noteq> [] \<and> isWellFormed path \<and> isWellFormed (or_empty (projectToken cfg))"
  then have "\<forall>s\<in>set (split slash path). \<exists>t. encodeURIComponent s = Inr t"
    using wellFormed_split [of path] by (auto simp: list_all_iff intro: encode_wellformed)
  from map_throw_all [OF this] obtain segments where
    m: "map_throw encodeURIComponent (split slash path) = Inr segments" and
    l: "list_all2 (\<lambda>s t. encodeURIComponent s = Inr t) (split slash path) segments"
    by auto
  from a obtain encodedToken where
    t: "encodeURIComponent (or_empty (projectToken cfg)) = Inr encodedToken"
    using encode_wellformed by blast
  from l have "length segments = length (split slash path)"
    by (simp add: list_all2_lengthD)
  then have ne: "segments \<noteq> []"
    using split_nonempty [of slash path] by auto
  from l have "\<forall>t\<in>set segments. slash \<notin> set t"
    by (rule encoded_segments_no_slash)
  with ne have s: "split slash (join slash segments) = segments"
    by (rule split_join)
  from a m t have "getUrl cfg path = (Inr (view_url cfg (join slash segments) encodedToken), [])"
    by (simp add: getUrl_def bind_def lift_def ret_def)
  with l s t show "\<exists>segments encodedToken.
         getUrl cfg path = (Inr (view_url cfg (join slash segments) encodedToken), []) \<and>
         list_all2 (\<lambda>s t. encodeURIComponent s = Inr t) (split slash path) segments \<and>
         split slash (join slash segments) = segments \<and>
         encodeURIComponent (or_empty (projectToken cfg)) = Inr encodedToken"
    by blast
next
  assume a: "path \<noteq> [] \<and> \<not> (isWellFormed path \<and> isWellFormed (or_empty (projectToken cfg)))"
  have e: "\<forall>s\<in>set (split slash path). (\<exists>t. encodeURIComponent s = Inr t) \<or> encodeURIComponent s = Inl URIError"
    using encode_wellformed encode_malformed by blast
  show "getUrl cfg path = (Inl URIError, [])"
  proof (cases "isWellFormed path")
    case False
    then have "\<exists>s\<in>set (split slash path). encodeURIComponent s = Inl URIError"
      using wellFormed_split [of path] by (auto simp: list_all_iff intro: encode_malformed)
    from map_throw_fails [OF e this] a show ?thesis
      by (simp add: getUrl_def bind_def lift_def)
  next
    case True
    with a have "encodeURIComponent (or_empty (projectToken cfg)) = Inl URIError"
      by (auto intro: encode_malformed)
    moreover from True have "\<forall>s\<in>set (split slash path). \<exists>t. encodeURIComponent s = Inr t"
      using wellFormed_split [of path] by (auto simp: list_all_iff intro: encode_wellformed)
    from map_throw_all [OF this] obtain segments where
      "map_throw encodeURIComponent (split slash path) = Inr segments" by auto
    ultimately show ?thesis using a
      by (simp add: getUrl_def bind_def lift_def)
  qed
qed

theorem getUrl_encodes_segments_witness:
  "lit ''a b/c'' \<noteq> [] \<and> isWellFormed (lit ''a b/c'') \<and>
   isWellFormed (or_empty (projectToken sample_config)) \<and>
   (\<exists>segments encodedToken.
      (getUrl sample_config (lit ''a b/c'') :: (unit io, jsstring) eff) =
        (Inr (view_url sample_config (join slash segments) encodedToken), []) \<and>
      list_all2 (\<lambda>s t. encodeURIComponent s = Inr t) (split slash (lit ''a b/c'')) segments \<and>
      split slash (join slash segments) = segments \<and>
      encodeURIComponent (or_empty (projectToken sample_config)) = Inr encodedToken)"
  using getUrl_encodes_segments [of sample_config "lit ''a b/c''"] sample_path_ok
  by blast

end
